theory Spec2Isabelle
  imports Complex_Main
begin

section \<open>JavaScript values, strings and objects\<close>

text \<open>
  The program is JavaScript. Three features of the language decide what the flag
  assembler computes, and they are modelled here as the language defines them:
  \<^item> a number used as a property key or inside a template literal is converted to its
    decimal string (\<open>num_str\<close>; the numbers that occur are array indices and lengths);
  \<^item> \<open>undefined\<close> used as a key or in a template literal is the string \<open>undefined\<close>;
  \<^item> the own keys of an object are enumerated (\<open>for ... in\<close>, \<open>_.values\<close>) with the
    array-index keys first, in ascending numeric order, followed by all other string keys
    in the order of their creation.
\<close>

definition digit_char :: "nat \<Rightarrow> char" where
  "digit_char d = ''0123456789'' ! d"

function num_str :: "nat \<Rightarrow> string" where
  "num_str n = (if n < 10 then [digit_char n] else num_str (n div 10) @ [digit_char (n mod 10)])"
  by pat_completeness auto
termination
  by (relation "measure id") auto

definition digit_val :: "char \<Rightarrow> nat option" where
  "digit_val c = map_of (zip ''0123456789'' [0 ..< 10]) c"

fun parse_digits :: "nat \<Rightarrow> string \<Rightarrow> nat option" where
  "parse_digits acc [] = Some acc"
| "parse_digits acc (c # cs) =
     (case digit_val c of None \<Rightarrow> None | Some d \<Rightarrow> parse_digits (10 * acc + d) cs)"

text \<open>
  A key is an array index when it is the canonical decimal string of a number: it parses
  as a number whose string is the key again (so \<open>07\<close> and the empty string are not).
\<close>

definition array_index :: "string \<Rightarrow> nat option" where
  "array_index s =
     (if s = [] then None
      else case parse_digits 0 s of
             None \<Rightarrow> None
           | Some n \<Rightarrow> if num_str n = s then Some n else None)"

text \<open>
  A value that the operators use as a symbolic name: a number (a vertex id or a face
  index), a string, or \<open>undefined\<close> (an array read out of range, a missing property).
  Strict equality \<open>===\<close> on such values is equality of the datatype: the number 3 and
  the string \<open>3\<close> differ, although they are the same property key.
\<close>

datatype sym = Num nat | Str string | Undefined

fun to_string :: "sym \<Rightarrow> string" where
  "to_string (Num n) = num_str n"
| "to_string (Str s) = s"
| "to_string Undefined = ''undefined''"

text \<open>A vertex id read from a face: a number, or \<open>undefined\<close> (\<open>None\<close>).\<close>

type_synonym vid = "nat option"

fun vid_sym :: "vid \<Rightarrow> sym" where
  "vid_sym (Some n) = Num n"
| "vid_sym None = Undefined"

text \<open>
  An object is the list of its own properties in creation order. Writing an existing key
  replaces the value and keeps the property's place; writing a new key appends.
\<close>

type_synonym 'v jsobj = "(string \<times> 'v) list"

fun obj_get :: "'v jsobj \<Rightarrow> string \<Rightarrow> 'v option" where
  "obj_get [] k = None"
| "obj_get ((k', v) # ps) k = (if k' = k then Some v else obj_get ps k)"

fun obj_set :: "'v jsobj \<Rightarrow> string \<Rightarrow> 'v \<Rightarrow> 'v jsobj" where
  "obj_set [] k v = [(k, v)]"
| "obj_set ((k', v') # ps) k v = (if k' = k then (k, v) # ps else (k', v') # obj_set ps k v)"

definition index_entries :: "'v jsobj \<Rightarrow> (nat \<times> string \<times> 'v) list" where
  "index_entries obj =
     concat (map (\<lambda>e. case array_index (fst e) of None \<Rightarrow> [] | Some n \<Rightarrow> [(n, e)]) obj)"

definition own_entries :: "'v jsobj \<Rightarrow> (string \<times> 'v) list" where
  "own_entries obj =
     map snd (sort_key fst (index_entries obj)) @
     filter (\<lambda>e. array_index (fst e) = None) obj"

text \<open>What \<open>console.log\<close> prints, one entry per call.\<close>

datatype console =
    Log string
  | BadFlagSpec string "sym jsobj"

datatype error = TypeError

section \<open>Vectors and the mesh model\<close>

text \<open>
  Coordinates are IEEE doubles in the program and real numbers here. No statement below
  depends on the value of a coordinate except where it says so.
\<close>

type_synonym vec = "real \<times> real \<times> real"

record polyhedron =
  vertices :: "vec list"
  faces :: "vid list list"
  name :: string

text \<open>
  Reading a component of \<open>undefined\<close> raises a \<open>TypeError\<close>, which nothing in the
  program catches: a function that can do so returns \<open>error + 'a\<close>.
\<close>

fun bind :: "error + 'a \<Rightarrow> ('a \<Rightarrow> error + 'b) \<Rightarrow> error + 'b" where
  "bind (Inl e) f = Inl e"
| "bind (Inr x) f = f x"

fun mapM :: "('a \<Rightarrow> error + 'b) \<Rightarrow> 'a list \<Rightarrow> error + 'b list" where
  "mapM f [] = Inr []"
| "mapM f (x # xs) = bind (f x) (\<lambda>y. bind (mapM f xs) (\<lambda>ys. Inr (y # ys)))"

fun foldM :: "('a \<Rightarrow> 's \<Rightarrow> error + 's) \<Rightarrow> 'a list \<Rightarrow> 's \<Rightarrow> error + 's" where
  "foldM f [] s = Inr s"
| "foldM f (x # xs) s = bind (f x s) (foldM f xs)"

definition deref :: "'a option \<Rightarrow> error + 'a" where
  "deref x = (case x of None \<Rightarrow> Inl TypeError | Some y \<Rightarrow> Inr y)"

definition mult :: "real \<Rightarrow> vec \<Rightarrow> vec" where
  "mult c v = (case v of (x, y, z) \<Rightarrow> (c * x, c * y, c * z))"

definition add :: "vec \<Rightarrow> vec \<Rightarrow> vec" where
  "add v w = (case (v, w) of ((a, b, c), (x, y, z)) \<Rightarrow> (a + x, b + y, c + z))"

definition sub :: "vec \<Rightarrow> vec \<Rightarrow> vec" where
  "sub v w = (case (v, w) of ((a, b, c), (x, y, z)) \<Rightarrow> (a - x, b - y, c - z))"

definition dot :: "vec \<Rightarrow> vec \<Rightarrow> real" where
  "dot v w = (case (v, w) of ((a, b, c), (x, y, z)) \<Rightarrow> a * x + b * y + c * z)"

definition cross :: "vec \<Rightarrow> vec \<Rightarrow> vec" where
  "cross d1 d2 =
     (case (d1, d2) of ((a, b, c), (x, y, z)) \<Rightarrow> (b * z - c * y, c * x - a * z, a * y - b * x))"

definition mag :: "vec \<Rightarrow> real" where
  "mag v = sqrt (dot v v)"

definition mag2 :: "vec \<Rightarrow> real" where
  "mag2 v = dot v v"

definition unit :: "vec \<Rightarrow> vec" where
  "unit v = mult (1 / sqrt (mag2 v)) v"

definition midpoint :: "vec \<Rightarrow> vec \<Rightarrow> vec" where
  "midpoint v w = mult (1 / 2) (add v w)"

definition tween :: "vec \<Rightarrow> vec \<Rightarrow> real \<Rightarrow> vec" where
  "tween v w t =
     (case (v, w) of ((a, b, c), (x, y, z)) \<Rightarrow>
        ((1 - t) * a + t * x, (1 - t) * b + t * y, (1 - t) * c + t * z))"

definition oneThird :: "vec \<Rightarrow> vec \<Rightarrow> vec" where
  "oneThird v w = tween v w (1 / 3)"

definition reciprocal :: "vec \<Rightarrow> vec" where
  "reciprocal v = mult (1 / mag2 v) v"

definition tangentPoint :: "vec \<Rightarrow> vec \<Rightarrow> vec" where
  "tangentPoint v1 v2 = (let d = sub v2 v1 in sub v1 (mult (dot d v1 / mag2 d) d))"

definition edgeDist :: "vec \<Rightarrow> vec \<Rightarrow> real" where
  "edgeDist v1 v2 = sqrt (mag2 (tangentPoint v1 v2))"

definition orthogonal :: "vec \<Rightarrow> vec \<Rightarrow> vec \<Rightarrow> vec" where
  "orthogonal v1 v2 v3 = cross (sub v2 v1) (sub v3 v2)"

text \<open>\<open>xs.slice(-2)\<close> destructured into two variables, and \<open>xs.slice(-1)\<close> into one.\<close>

definition last_two :: "'a option list \<Rightarrow> 'a option \<times> 'a option" where
  "last_two xs =
     (case rev xs of [] \<Rightarrow> (None, None) | [a] \<Rightarrow> (a, None) | b # a # _ \<Rightarrow> (a, b))"

definition last_one :: "'a option list \<Rightarrow> 'a option" where
  "last_one xs = (case rev xs of [] \<Rightarrow> None | a # _ \<Rightarrow> a)"

text \<open>\<open>poly.vertices[v]\<close>: \<open>undefined\<close> when \<open>v\<close> is \<open>undefined\<close> or out of range.\<close>

definition vertex :: "vec list \<Rightarrow> vid \<Rightarrow> vec option" where
  "vertex vs v = (case v of None \<Rightarrow> None | Some i \<Rightarrow> if i < length vs then Some (vs ! i) else None)"

fun normal_loop :: "vec option \<Rightarrow> vec option \<Rightarrow> vec option list \<Rightarrow> vec \<Rightarrow> error + vec" where
  "normal_loop v1 v2 [] normalV = Inr normalV"
| "normal_loop v1 v2 (v3 # vs) normalV =
     bind (deref v2) (\<lambda>b. bind (deref v1) (\<lambda>a. bind (deref v3) (\<lambda>c.
       normal_loop v2 v3 vs (add normalV (orthogonal a b c)))))"

definition normal :: "vec option list \<Rightarrow> error + vec" where
  "normal vs = (case last_two vs of (v1, v2) \<Rightarrow>
                  bind (normal_loop v1 v2 vs (0, 0, 0)) (\<lambda>normalV. Inr (unit normalV)))"

definition calcCentroid :: "vec option list \<Rightarrow> error + vec" where
  "calcCentroid vs =
     bind (foldM (\<lambda>v centroidV. bind (deref v) (\<lambda>w. Inr (add centroidV w))) vs (0, 0, 0))
          (\<lambda>centroidV. Inr (mult (1 / real (length vs)) centroidV))"

definition centers :: "polyhedron \<Rightarrow> error + vec list" where
  "centers p =
     mapM (\<lambda>face.
        bind (foldM (\<lambda>vidx fcenter. bind (deref (vertex (vertices p) vidx))
                                          (\<lambda>w. Inr (add fcenter w))) face (0, 0, 0))
             (\<lambda>fcenter. Inr (mult (1 / real (length face)) fcenter)))
       (faces p)"

definition normals :: "polyhedron \<Rightarrow> error + vec list" where
  "normals p = mapM (\<lambda>face. normal (map (vertex (vertices p)) face)) (faces p)"

text \<open>\<open>faceToEdges\<close> and \<open>polyhedron.edges()\<close>. \<open>a < b\<close> is false when an operand is \<open>undefined\<close>.\<close>

fun face_edges_from :: "vid \<Rightarrow> vid list \<Rightarrow> (vid \<times> vid) list" where
  "face_edges_from v1 [] = []"
| "face_edges_from v1 (v2 # vs) = (v1, v2) # face_edges_from v2 vs"

definition faceToEdges :: "vid list \<Rightarrow> (vid \<times> vid) list" where
  "faceToEdges face = face_edges_from (last_one face) face"

definition js_less :: "vid \<Rightarrow> vid \<Rightarrow> bool" where
  "js_less a b = (case (a, b) of (Some x, Some y) \<Rightarrow> x < y | _ \<Rightarrow> False)"

text \<open>
  \<open>if (e[0] < e[1]) [a, b] = e; else [b, a] = e;\<close> leaves the smaller id in \<open>a\<close> and
  the larger in \<open>b\<close>; the key of the edge is the template literal of the two.
\<close>

definition min_max :: "vid \<times> vid \<Rightarrow> vid \<times> vid" where
  "min_max e = (if js_less (fst e) (snd e) then (fst e, snd e) else (snd e, fst e))"

definition edge_key :: "vid \<times> vid \<Rightarrow> string" where
  "edge_key e =
     (case min_max e of (a, b) \<Rightarrow> to_string (vid_sym a) @ ''~'' @ to_string (vid_sym b))"

definition edges :: "polyhedron \<Rightarrow> (vid \<times> vid) list" where
  "edges p =
     map snd (own_entries
       (fold (\<lambda>edgeSet uniqEdges. fold (\<lambda>e u. obj_set u (edge_key e) e) edgeSet uniqEdges)
             (map faceToEdges (faces p)) []))"

text \<open>The directed edges of all faces, in the order \<open>edges()\<close> visits them.\<close>

definition all_face_edges :: "polyhedron \<Rightarrow> (vid \<times> vid) list" where
  "all_face_edges p = concat (map faceToEdges (faces p))"

text \<open>The seeds used below.\<close>

definition tetrahedron :: polyhedron where
  "tetrahedron =
     \<lparr>vertices = [(1, 1, 1), (1, -1, -1), (-1, 1, -1), (-1, -1, 1)],
      faces = map (map Some) [[0, 1, 2], [0, 2, 3], [0, 3, 1], [1, 3, 2]],
      name = ''T''\<rparr>"

definition cube_faces :: "vid list list" where
  "cube_faces = map (map Some)
     [[3, 0, 1, 2], [3, 4, 5, 0], [0, 5, 6, 1], [1, 6, 7, 2], [2, 7, 4, 3], [5, 4, 7, 6]]"

definition cube :: polyhedron where
  "cube =
     (let h = 0.7071067811865475 in
      \<lparr>vertices = [(h, h, h), (-h, h, h), (-h, -h, h), (h, -h, h),
                   (h, -h, -h), (h, h, -h), (-h, h, -h), (-h, -h, -h)],
       faces = cube_faces,
       name = ''C''\<rparr>)"

section \<open>The flag assembler\<close>

text \<open>
  \<open>class polyflag\<close>. \<open>flags[face][vertex]\<close> is the next vertex of the face. The source
  keeps two objects for the vertices, \<open>vertidxs\<close> and \<open>vertices\<close>; \<open>newV\<close> is their only
  writer and writes both under the same key, so they are one object here, whose values
  are the pair of the index and the coordinates.
\<close>

record polyflag =
  flags :: "(sym jsobj) jsobj"
  verts :: "(nat \<times> vec) jsobj"

definition new_polyflag :: polyflag where
  "new_polyflag = \<lparr>flags = [], verts = []\<rparr>"

definition newV :: "sym \<Rightarrow> vec \<Rightarrow> polyflag \<Rightarrow> polyflag" where
  "newV vertName coordinates fl =
     (if obj_get (verts fl) (to_string vertName) = None
      then fl\<lparr>verts := obj_set (verts fl) (to_string vertName) (0, coordinates)\<rparr>
      else fl)"

definition newFlag :: "sym \<Rightarrow> sym \<Rightarrow> sym \<Rightarrow> polyflag \<Rightarrow> polyflag" where
  "newFlag faceName vertName1 vertName2 fl =
     (let f = (case obj_get (flags fl) (to_string faceName) of None \<Rightarrow> [] | Some m \<Rightarrow> m)
      in fl\<lparr>flags := obj_set (flags fl) (to_string faceName)
                          (obj_set f (to_string vertName1) vertName2)\<rparr>)"

definition MAX_FACE_SIDEDNESS :: nat where
  "MAX_FACE_SIDEDNESS = 1000"

text \<open>\<open>this.vertidxs[v]\<close> after the vertices are numbered, and \<open>this.flags[i][v]\<close>.\<close>

definition vert_index :: "nat jsobj \<Rightarrow> sym \<Rightarrow> vid" where
  "vert_index vertidxs v = obj_get vertidxs (to_string v)"

definition flag_next :: "sym jsobj \<Rightarrow> sym \<Rightarrow> sym" where
  "flag_next face v = (case obj_get face (to_string v) of None \<Rightarrow> Undefined | Some w \<Rightarrow> w)"

text \<open>
  The \<open>while (v !== v0)\<close> loop of \<open>topoly\<close>. The result is the face built so far and
  whether the loop was left through the \<open>break\<close> of the safety check.
\<close>

function face_loop ::
  "sym jsobj \<Rightarrow> nat jsobj \<Rightarrow> sym \<Rightarrow> sym \<Rightarrow> nat \<Rightarrow> vid list \<Rightarrow> vid list \<times> bool" where
  "face_loop face vertidxs v0 v faceCTR acc =
     (if v = v0 then (acc, False)
      else let acc' = acc @ [vert_index vertidxs v];
               v' = flag_next face v;
               faceCTR' = faceCTR + 1
           in if faceCTR' > MAX_FACE_SIDEDNESS then (acc', True)
              else face_loop face vertidxs v0 v' faceCTR' acc')"
  by pat_completeness auto
termination
  by (relation "measure (\<lambda>(face, vertidxs, v0, v, faceCTR, acc). MAX_FACE_SIDEDNESS - faceCTR)")
     auto

text \<open>The starting vertex: the value under the first enumerated key of the face.\<close>

definition first_vertex :: "sym jsobj \<Rightarrow> sym" where
  "first_vertex face = (case own_entries face of [] \<Rightarrow> Undefined | (j, w) # _ \<Rightarrow> w)"

definition build_face :: "nat jsobj \<Rightarrow> sym jsobj \<Rightarrow> vid list \<times> bool" where
  "build_face vertidxs face =
     (let v0 = first_vertex face
      in face_loop face vertidxs v0 (flag_next face v0) 0 [vert_index vertidxs v0])"

text \<open>
  The first loop of \<open>topoly\<close> numbers the vertices in enumeration order; the object
  \<open>vertidxs\<close> then maps every name to its number.
\<close>

definition number_vertices :: "(nat \<times> vec) jsobj \<Rightarrow> nat jsobj" where
  "number_vertices vs = zip (map fst (own_entries vs)) [0 ..< length vs]"

definition topoly :: "polyflag \<Rightarrow> polyhedron \<times> console list" where
  "topoly fl =
     (let vertidxs = number_vertices (verts fl);
          built = map (\<lambda>(i, face). (i, face, build_face vertidxs face)) (own_entries (flags fl))
      in (\<lparr>vertices = map (\<lambda>(i, ctr, xyz). xyz) (own_entries (verts fl)),
           faces = map (\<lambda>(i, face, f, broke). f) built,
           name = ''unknown polyhedron''\<rparr>,
          concat (map (\<lambda>(i, face, f, broke). if broke then [BadFlagSpec i face] else []) built)))"

section \<open>The operators\<close>

text \<open>The elements of an array with their indices, as the \<open>for (i = 0; ...)\<close> loops read them.\<close>

definition indexed :: "'a list \<Rightarrow> (nat \<times> 'a) list" where
  "indexed xs = zip [0 ..< length xs] xs"

subsection \<open>kisN\<close>

definition sel_str :: "nat \<Rightarrow> string" where
  "sel_str n = (if n = 0 then [] else num_str n)"

definition vname :: "vid \<Rightarrow> string" where
  "vname v = ''v'' @ to_string (vid_sym v)"

text \<open>
  The body of the loop over the vertices of face \<open>i\<close>; the state is the assembler,
  \<open>foundAny\<close> and \<open>v1\<close>.
\<close>

definition kis_step ::
  "nat \<Rightarrow> real \<Rightarrow> vec \<Rightarrow> vec \<Rightarrow> nat \<Rightarrow> nat \<Rightarrow> vid \<Rightarrow> polyflag \<times> bool \<times> string
     \<Rightarrow> polyflag \<times> bool \<times> string" where
  "kis_step n apexdist c nrm i len v st =
     (case st of (flag, foundAny, v1) \<Rightarrow>
      (let v2 = vname v in
       if len = n \<or> n = 0 then
         (let apex = ''apex'' @ num_str i;
              fname = num_str i @ v1;
              flag1 = newV (Str apex) (add c (mult apexdist nrm)) flag;
              flag2 = newFlag (Str fname) (Str v1) (Str v2) flag1;
              flag3 = newFlag (Str fname) (Str v2) (Str apex) flag2;
              flag4 = newFlag (Str fname) (Str apex) (Str v1) flag3
          in (flag4, True, v2))
       else (newFlag (Str (num_str i)) (Str v1) (Str v2) flag, foundAny, v2)))"

definition kis_face ::
  "nat \<Rightarrow> real \<Rightarrow> vec list \<Rightarrow> vec list \<Rightarrow> nat \<times> vid list \<Rightarrow> polyflag \<times> bool
     \<Rightarrow> polyflag \<times> bool" where
  "kis_face n apexdist ctrs nrms face st =
     (case (face, st) of ((i, f), (flag, foundAny)) \<Rightarrow>
        (case fold (kis_step n apexdist (ctrs ! i) (nrms ! i) i (length f)) f
                   (flag, foundAny, vname (last_one f)) of
           (flag', foundAny', v1) \<Rightarrow> (flag', foundAny')))"

definition old_vertices :: "polyhedron \<Rightarrow> polyflag \<Rightarrow> polyflag" where
  "old_vertices poly flag =
     fold (\<lambda>(i, p). newV (Str (''v'' @ num_str i)) p) (indexed (vertices poly)) flag"

definition kisN :: "polyhedron \<Rightarrow> nat option \<Rightarrow> real option \<Rightarrow> error + polyhedron \<times> console list" where
  "kisN poly n_arg apexdist_arg =
     (let n = (case n_arg of None \<Rightarrow> 0 | Some k \<Rightarrow> k);
          apexdist = (case apexdist_arg of None \<Rightarrow> 0.1 | Some d \<Rightarrow> d);
          log1 = Log (''Taking kis of '' @ sel_str n @ ''-sided faces of '' @ name poly @ ''...'');
          flag0 = old_vertices poly new_polyflag
      in bind (normals poly) (\<lambda>nrms. bind (centers poly) (\<lambda>ctrs.
           (case fold (kis_face n apexdist ctrs nrms) (indexed (faces poly)) (flag0, False) of
              (flag, foundAny) \<Rightarrow>
                (let log2 = (if foundAny then []
                             else [Log (''No '' @ num_str n @ ''-fold components were found.'')])
                 in case topoly flag of
                      (newpoly, log3) \<Rightarrow>
                        Inr (newpoly\<lparr>name := ''k'' @ sel_str n @ name poly\<rparr>,
                             [log1] @ log2 @ log3))))))"

subsection \<open>chamfer\<close>

definition cham_new :: "nat \<Rightarrow> vid \<Rightarrow> string" where
  "cham_new i v = num_str i @ ''_'' @ to_string (vid_sym v)"

definition hex_name :: "vid \<Rightarrow> vid \<Rightarrow> string" where
  "hex_name v1 v2 =
     (if js_less v1 v2
      then ''hex'' @ to_string (vid_sym v1) @ ''_'' @ to_string (vid_sym v2)
      else ''hex'' @ to_string (vid_sym v2) @ ''_'' @ to_string (vid_sym v1))"

definition chamfer_step ::
  "vec list \<Rightarrow> real \<Rightarrow> vec \<Rightarrow> nat \<Rightarrow> vid \<Rightarrow> polyflag \<times> vid \<times> string
     \<Rightarrow> error + polyflag \<times> vid \<times> string" where
  "chamfer_step pvs dst nrm i v2 st =
     (case st of (flag, v1, v1new) \<Rightarrow>
      bind (deref (vertex pvs v2)) (\<lambda>p2.
       (let flag1 = newV (vid_sym v2) (mult (1 + dst) p2) flag;
            v2new = cham_new i v2;
            flag2 = newV (Str v2new) (add p2 (mult (dst * 1.5) nrm)) flag1;
            flag3 = newFlag (Str (''orig'' @ num_str i)) (Str v1new) (Str v2new) flag2;
            facename = hex_name v1 v2;
            flag4 = newFlag (Str facename) (vid_sym v2) (Str v2new) flag3;
            flag5 = newFlag (Str facename) (Str v2new) (Str v1new) flag4;
            flag6 = newFlag (Str facename) (Str v1new) (vid_sym v1) flag5
        in Inr (flag6, v2, v2new))))"

definition chamfer_face ::
  "vec list \<Rightarrow> real \<Rightarrow> vec list \<Rightarrow> nat \<times> vid list \<Rightarrow> polyflag \<Rightarrow> error + polyflag" where
  "chamfer_face pvs dst nrms face flag =
     (case face of (i, f) \<Rightarrow>
        bind (foldM (chamfer_step pvs dst (nrms ! i) i) f
                    (flag, last_one f, cham_new i (last_one f)))
             (\<lambda>(flag', v1, v1new). Inr flag'))"

definition chamfer :: "polyhedron \<Rightarrow> real option \<Rightarrow> error + polyhedron \<times> console list" where
  "chamfer poly dist_arg =
     (let log1 = Log (''Taking chamfer of '' @ name poly @ ''...'');
          dst = (case dist_arg of None \<Rightarrow> 0.5 | Some d \<Rightarrow> if d = 0 then 0.5 else d)
      in bind (normals poly) (\<lambda>nrms.
         bind (foldM (chamfer_face (vertices poly) dst nrms)
                     (indexed (faces poly)) new_polyflag) (\<lambda>flag.
           case topoly flag of
             (newpoly, log2) \<Rightarrow> Inr (newpoly\<lparr>name := ''c'' @ name poly\<rparr>, log1 # log2))))"

subsection \<open>insetN, extrudeN, loft\<close>

definition inset_name :: "nat \<Rightarrow> string \<Rightarrow> string" where
  "inset_name i v = ''f'' @ num_str i @ v"

text \<open>The first loop: a new inset vertex for every vertex of a selected face.\<close>

definition inset_vertices ::
  "polyhedron \<Rightarrow> nat \<Rightarrow> real \<Rightarrow> real \<Rightarrow> vec list \<Rightarrow> vec list \<Rightarrow> nat \<times> vid list \<Rightarrow> polyflag
     \<Rightarrow> error + polyflag" where
  "inset_vertices poly n inset_dist popout_dist ctrs nrms face flag =
     (case face of (i, f) \<Rightarrow>
        if length f = n \<or> n = 0 then
          foldM (\<lambda>v fl. bind (deref (vertex (vertices poly) v)) (\<lambda>p.
                   Inr (newV (Str (inset_name i (vname v)))
                          (add (tween p (ctrs ! i) inset_dist) (mult popout_dist (nrms ! i))) fl)))
                f flag
        else Inr flag)"

definition inset_step ::
  "nat \<Rightarrow> nat \<Rightarrow> nat \<Rightarrow> vid \<Rightarrow> polyflag \<times> bool \<times> string \<Rightarrow> polyflag \<times> bool \<times> string" where
  "inset_step n i len v st =
     (case st of (flag, foundAny, v1) \<Rightarrow>
      (let v2 = vname v in
       if len = n \<or> n = 0 then
         (let fname = num_str i @ v1;
              flag1 = newFlag (Str fname) (Str v1) (Str v2) flag;
              flag2 = newFlag (Str fname) (Str v2) (Str (inset_name i v2)) flag1;
              flag3 = newFlag (Str fname) (Str (inset_name i v2)) (Str (inset_name i v1)) flag2;
              flag4 = newFlag (Str fname) (Str (inset_name i v1)) (Str v1) flag3;
              flag5 = newFlag (Str (''ex'' @ num_str i)) (Str (inset_name i v1))
                        (Str (inset_name i v2)) flag4
          in (flag5, True, v2))
       else (newFlag (Num i) (Str v1) (Str v2) flag, foundAny, v2)))"

definition inset_face :: "nat \<Rightarrow> nat \<times> vid list \<Rightarrow> polyflag \<times> bool \<Rightarrow> polyflag \<times> bool" where
  "inset_face n face st =
     (case (face, st) of ((i, f), (flag, foundAny)) \<Rightarrow>
        (case fold (inset_step n i (length f)) f (flag, foundAny, vname (last_one f)) of
           (flag', foundAny', v1) \<Rightarrow> (flag', foundAny')))"

definition insetN ::
  "polyhedron \<Rightarrow> nat option \<Rightarrow> real option \<Rightarrow> real option \<Rightarrow> error + polyhedron \<times> console list" where
  "insetN poly n_arg inset_dist_arg popout_dist_arg =
     (let n = (case n_arg of None \<Rightarrow> 0 | Some k \<Rightarrow> k);
          inset_dist = (case inset_dist_arg of None \<Rightarrow> 0.5 | Some d \<Rightarrow> d);
          popout_dist = (case popout_dist_arg of None \<Rightarrow> - 0.2 | Some d \<Rightarrow> d);
          log1 = Log (''Taking inset of '' @ sel_str n @ ''-sided faces of '' @ name poly @ ''...'');
          flag0 = old_vertices poly new_polyflag
      in bind (normals poly) (\<lambda>nrms. bind (centers poly) (\<lambda>ctrs.
         bind (foldM (inset_vertices poly n inset_dist popout_dist ctrs nrms)
                     (indexed (faces poly)) flag0) (\<lambda>flag1.
           (case fold (inset_face n) (indexed (faces poly)) (flag1, False) of
              (flag, foundAny) \<Rightarrow>
                (let log2 = (if foundAny then []
                             else [Log (''No '' @ num_str n @ ''-fold components were found.'')])
                 in case topoly flag of
                      (newpoly, log3) \<Rightarrow>
                        Inr (newpoly\<lparr>name := ''n'' @ sel_str n @ name poly\<rparr>,
                             [log1] @ log2 @ log3)))))))"

definition extrudeN :: "polyhedron \<Rightarrow> nat option \<Rightarrow> error + polyhedron \<times> console list" where
  "extrudeN poly n_arg =
     bind (insetN poly n_arg (Some 0) (Some 0.3)) (\<lambda>(newpoly, lg).
       Inr (newpoly\<lparr>name := ''x'' @ sel_str (case n_arg of None \<Rightarrow> 0 | Some k \<Rightarrow> k) @ name poly\<rparr>,
            lg))"

definition loft :: "polyhedron \<Rightarrow> nat option \<Rightarrow> real option \<Rightarrow> error + polyhedron \<times> console list" where
  "loft poly n_arg alpha =
     bind (insetN poly n_arg alpha (Some 0)) (\<lambda>(newpoly, lg).
       Inr (newpoly\<lparr>name := ''l'' @ sel_str (case n_arg of None \<Rightarrow> 0 | Some k \<Rightarrow> k) @ name poly\<rparr>,
            lg))"

subsection \<open>Notions used in the statements\<close>

text \<open>
  The successor map that the flags of an unselected face \<open>f\<close> make up: one entry per
  directed edge, under the name of its first vertex.
\<close>

definition face_flags :: "vid list \<Rightarrow> sym jsobj" where
  "face_flags f = map (\<lambda>(a, b). (vname a, Str (vname b))) (faceToEdges f)"

text \<open>
  A face is well formed for a vertex list when it has at least two entries, all of them
  ids of vertices, none of them twice.
\<close>

definition wf_face :: "vec list \<Rightarrow> vid list \<Rightarrow> bool" where
  "wf_face vs f \<longleftrightarrow> 2 \<le> length f \<and> distinct f \<and> list_all (\<lambda>v. case v of None \<Rightarrow> False | Some i \<Rightarrow> i < length vs) f"

definition wf_poly :: "polyhedron \<Rightarrow> bool" where
  "wf_poly p \<longleftrightarrow> list_all (wf_face (vertices p)) (faces p)"

text \<open>
  A two-sided convex polygon with 1003 corners, on a parabola: a closed surface whose two
  faces are the polygon and its reverse.
\<close>

definition big_dihedron :: polyhedron where
  "big_dihedron =
     \<lparr>vertices = map (\<lambda>i. (real i, real (i * i), 0)) [0 ..< 1003],
      faces = [map Some [0 ..< 1003], map Some (rev [0 ..< 1003])],
      name = ''B''\<rparr>"

subsection \<open>Flag sets used as examples\<close>



section \<open>Properties\<close>

subsection \<open>Decimal strings\<close>

declare num_str.simps [simp del] face_loop.simps [simp del]

lemma digit_val_char_all: "list_all (\<lambda>d. digit_val (digit_char d) = Some d) [0 ..< 10]"
  by code_simp

lemma digit_val_char: "d < 10 \<Longrightarrow> digit_val (digit_char d) = Some d"
  using digit_val_char_all by (simp add: list_all_iff)

lemma parse_digits_snoc:
  "parse_digits acc (s @ [c]) =
     (case parse_digits acc s of None \<Rightarrow> None
      | Some a \<Rightarrow> (case digit_val c of None \<Rightarrow> None | Some d \<Rightarrow> Some (10 * a + d)))"
  by (induction s arbitrary: acc) (auto split: option.splits)

lemma parse_num_str: "parse_digits 0 (num_str n) = Some n"
proof (induction n rule: num_str.induct)
  case (1 n)
  show ?case
  proof (cases "n < 10")
    case True
    then show ?thesis by (simp add: num_str.simps [of n] digit_val_char)
  next
    case False
    then have "parse_digits 0 (num_str (n div 10)) = Some (n div 10)" using "1.IH" by simp
    with False show ?thesis
      by (simp add: num_str.simps [of n] parse_digits_snoc digit_val_char)
  qed
qed

lemma num_str_inj: "num_str a = num_str b \<longleftrightarrow> a = b"
  by (metis parse_num_str option.inject)

lemma num_str_not_Nil: "num_str n \<noteq> []"
  by (simp add: num_str.simps [of n])

lemma array_index_num_str: "array_index (num_str n) = Some n"
  by (simp add: array_index_def parse_num_str num_str_not_Nil)

lemma parse_digits_nondigit:
  "c \<in> set s \<Longrightarrow> digit_val c = None \<Longrightarrow> parse_digits acc s = None"
  by (induction s arbitrary: acc) (auto split: option.splits)

lemma array_index_nondigit: "c \<in> set s \<Longrightarrow> digit_val c = None \<Longrightarrow> array_index s = None"
  by (simp add: array_index_def parse_digits_nondigit)

lemma num_str_digits: "c \<in> set (num_str n) \<Longrightarrow> digit_val c \<noteq> None"
proof (induction n rule: num_str.induct)
  case (1 n)
  show ?case
  proof (cases "n < 10")
    case True
    with "1.prems" show ?thesis by (simp add: num_str.simps [of n] digit_val_char)
  next
    case False
    with "1.prems" "1.IH" show ?thesis
      by (auto simp: num_str.simps [of n] digit_val_char)
  qed
qed

lemma digit_val_tilde: "digit_val CHR ''~'' = None"
  by code_simp

subsection \<open>Objects\<close>

lemma obj_get_set: "obj_get (obj_set m k v) k' = (if k' = k then Some v else obj_get m k')"
  by (induction m) auto

lemma obj_get_map_of: "obj_get m k = map_of m k"
  by (induction m) auto

lemma obj_get_None: "obj_get m k = None \<longleftrightarrow> k \<notin> fst ` set m"
  by (simp add: obj_get_map_of map_of_eq_None_iff)

lemma obj_set_new: "k \<notin> fst ` set m \<Longrightarrow> obj_set m k v = m @ [(k, v)]"
  by (induction m) auto

lemma keys_obj_set: "fst ` set (obj_set m k v) = insert k (fst ` set m)"
proof (induction m)
  case Nil
  show ?case by simp
next
  case (Cons p m)
  obtain k' v' where p: "p = (k', v')" by (cases p)
  show ?case
  proof (cases "k' = k")
    case True
    then show ?thesis by (simp add: p)
  next
    case False
    then show ?thesis using Cons.IH by (simp add: p insert_commute)
  qed
qed

lemma distinct_obj_set: "distinct (map fst m) \<Longrightarrow> distinct (map fst (obj_set m k v))"
  by (induction m) (auto simp: keys_obj_set)

lemma set_obj_set: "set (obj_set m k v) \<subseteq> insert (k, v) (set m)"
  by (induction m) (auto split: if_splits)

lemma own_entries_no_index:
  "\<forall>e \<in> set obj. array_index (fst e) = None \<Longrightarrow> own_entries obj = obj"
proof -
  assume a: "\<forall>e \<in> set obj. array_index (fst e) = None"
  then have "index_entries obj = []"
    unfolding index_entries_def by (induction obj) auto
  with a show ?thesis by (simp add: own_entries_def)
qed

subsection \<open>The flag assembler\<close>



















subsection \<open>chamfer on the cube\<close>

lemma length_filter_length:
  "length (filter (\<lambda>f. length f = k) fs) = length (filter (\<lambda>n. n = k) (map length fs))"
  by (simp add: filter_map comp_def)

lemma cube_parts:
  "faces cube = cube_faces" "name cube = ''C''" "length (vertices cube) = 8"
  by (simp_all add: cube_def Let_def)

lemma list8: "length xs = 8 \<Longrightarrow> \<exists>a b c d e f g h. xs = [a, b, c, d, e, f, g, h]"
  by (auto simp: length_Suc_conv eval_nat_numeral)

lemma list6: "length xs = 6 \<Longrightarrow> \<exists>a b c d e f. xs = [a, b, c, d, e, f]"
  by (auto simp: length_Suc_conv eval_nat_numeral)

lemma normals_cube: "\<exists>ns. normals cube = Inr ns \<and> length ns = 6"
  by (simp add: normals_def cube_def cube_faces_def normal_def last_two_def vertex_def deref_def Let_def)

lemma chamfer_cube_flags:
  "case foldM (chamfer_face [p0, p1, p2, p3, p4, p5, p6, p7] d [n0, n1, n2, n3, n4, n5])
          (indexed cube_faces) new_polyflag of
     Inl e \<Rightarrow> False
   | Inr fl \<Rightarrow> length (vertices (fst (topoly fl))) = 32 \<and>
       map length (faces (fst (topoly fl))) = [4, 6, 6, 6, 6, 4, 6, 6, 6, 4, 6, 6, 4, 6, 6, 4, 6, 4]"
  by code_simp

lemma edges_cube: "length (edges cube) = 12"
  unfolding cube_def Let_def by code_simp

text \<open>
  Claim C5. The cube has 8 vertices, 6 faces and 12 edges, and \<open>chamfer(cube, 0.5)\<close>
  returns a polyhedron with 32 vertices and 18 faces, 12 of them hexagons and 6 of them
  quadrilaterals.
\<close>

theorem chamfer_cube:
  "length (vertices cube) = 8 \<and> length (faces cube) = 6 \<and> length (edges cube) = 12 \<and>
   (case chamfer cube (Some 0.5) of
      Inl e \<Rightarrow> False
    | Inr (p, lg) \<Rightarrow>
        length (vertices p) = 32 \<and> length (faces p) = 18 \<and>
        length (filter (\<lambda>f. length f = 6) (faces p)) = 12 \<and>
        length (filter (\<lambda>f. length f = 4) (faces p)) = 6)"
proof -
  obtain ns where ns: "normals cube = Inr ns" "length ns = 6" using normals_cube by blast
  obtain n0 n1 n2 n3 n4 n5 where n: "ns = [n0, n1, n2, n3, n4, n5]" using list6 [OF ns(2)] by blast
  obtain p0 p1 p2 p3 p4 p5 p6 p7 where p: "vertices cube = [p0, p1, p2, p3, p4, p5, p6, p7]"
    using list8 [OF cube_parts(3)] by blast
  note f = chamfer_cube_flags [of p0 p1 p2 p3 p4 p5 p6 p7 "1 / 2" n0 n1 n2 n3 n4 n5]
  obtain fl where fl: "foldM (chamfer_face [p0, p1, p2, p3, p4, p5, p6, p7] (1 / 2) [n0, n1, n2, n3, n4, n5])
          (indexed cube_faces) new_polyflag = Inr fl"
    using f by (auto split: sum.splits)
  obtain q lg where t: "topoly fl = (q, lg)" by (cases "topoly fl")
  have c: "chamfer cube (Some 0.5) = Inr (q\<lparr>name := ''c'' @ ''C''\<rparr>, Log (''Taking chamfer of '' @ ''C'' @ ''...'') # lg)"
    by (simp add: chamfer_def ns n p cube_parts fl t Let_def)
  have "length (vertices q) = 32" "map length (faces q) = [4, 6, 6, 6, 6, 4, 6, 6, 6, 4, 6, 6, 4, 6, 6, 4, 6, 4]"
    using f by (simp_all add: fl t)
  then have "length (vertices q) = 32 \<and> length (faces q) = 18 \<and>
        length (filter (\<lambda>f. length f = 6) (faces q)) = 12 \<and>
        length (filter (\<lambda>f. length f = 4) (faces q)) = 6"
    using length_map [of length "faces q"] by (simp add: length_filter_length)
  then show ?thesis unfolding c using edges_cube by (simp add: cube_parts cube_faces_def)
qed

subsection \<open>edges\<close>

lemma edges_fold:
  "fold (\<lambda>edgeSet uniqEdges. fold (\<lambda>e u. obj_set u (edge_key e) e) edgeSet uniqEdges) ess u0
   = fold (\<lambda>e u. obj_set u (edge_key e) e) (concat ess) u0"
  by (induction ess arbitrary: u0) auto

lemma uniq_keys:
  "fst ` set (fold (\<lambda>e u. obj_set u (edge_key e) e) es u0) = fst ` set u0 \<union> edge_key ` set es"
  by (induction es arbitrary: u0) (auto simp: keys_obj_set)

lemma uniq_distinct:
  "distinct (map fst u0) \<Longrightarrow> distinct (map fst (fold (\<lambda>e u. obj_set u (edge_key e) e) es u0))"
  by (induction es arbitrary: u0) (auto simp: distinct_obj_set)

lemma uniq_entries:
  "\<forall>(k, e) \<in> set u0. k = edge_key e \<and> e \<in> S \<Longrightarrow> set es \<subseteq> S \<Longrightarrow>
   \<forall>(k, e) \<in> set (fold (\<lambda>e u. obj_set u (edge_key e) e) es u0). k = edge_key e \<and> e \<in> S"
proof (induction es arbitrary: u0)
  case Nil
  then show ?case by simp
next
  case (Cons x es)
  have "\<forall>(k, e) \<in> set (obj_set u0 (edge_key x) x). k = edge_key e \<and> e \<in> S"
    using set_obj_set [of u0 "edge_key x" x] Cons.prems by auto
  then show ?case using Cons.IH [of "obj_set u0 (edge_key x) x"] Cons.prems by simp
qed

lemma edge_key_tilde: "CHR ''~'' \<in> set (edge_key e)"
  by (cases "min_max e") (simp add: edge_key_def)

lemma edge_key_no_index: "array_index (edge_key e) = None"
  using array_index_nondigit [OF edge_key_tilde digit_val_tilde] .

lemma tilde_num_str: "CHR ''~'' \<notin> set (num_str n)"
  using num_str_digits digit_val_tilde by blast

lemma pair_key_inj:
  "num_str a @ CHR ''~'' # num_str b = num_str c @ CHR ''~'' # num_str d \<longleftrightarrow> a = c \<and> b = d"
  by (simp add: append_Cons_eq_iff tilde_num_str num_str_inj)

lemma min_max_Some:
  "min_max (Some a, Some b) = (Some (min a b), Some (max a b))"
  by (auto simp: min_max_def js_less_def min_def max_def)

lemma edge_key_inj:
  "fst e \<noteq> None \<Longrightarrow> snd e \<noteq> None \<Longrightarrow> fst e' \<noteq> None \<Longrightarrow> snd e' \<noteq> None \<Longrightarrow>
   edge_key e = edge_key e' \<longleftrightarrow> min_max e = min_max e'"
  by (cases e; cases e') (auto simp: edge_key_def min_max_Some pair_key_inj)


lemma face_edges_from_mem:
  "(a, b) \<in> set (face_edges_from v1 f) \<Longrightarrow> a \<in> insert v1 (set f) \<and> b \<in> set f"
  by (induction f arbitrary: v1) auto

lemma last_one_mem: "f \<noteq> [] \<Longrightarrow> last_one f \<in> set f"
  by (cases "rev f") (auto simp: last_one_def dest: arg_cong [of _ _ set])

lemma faceToEdges_mem: "(a, b) \<in> set (faceToEdges f) \<Longrightarrow> a \<in> set f \<and> b \<in> set f"
proof -
  assume m: "(a, b) \<in> set (faceToEdges f)"
  then have "f \<noteq> []" by (auto simp: faceToEdges_def)
  with m show ?thesis
    using face_edges_from_mem [of a b "last_one f" f] last_one_mem [of f]
    by (auto simp: faceToEdges_def)
qed

lemma edge_key_min_max: "min_max e = min_max e' \<Longrightarrow> edge_key e = edge_key e'"
  by (simp add: edge_key_def)

lemma edges_eq:
  "edges p = map snd (fold (\<lambda>e u. obj_set u (edge_key e) e) (all_face_edges p) [])"
proof -
  let ?U = "fold (\<lambda>e u. obj_set u (edge_key e) e) (all_face_edges p) []"
  have "\<forall>(k, e) \<in> set ?U. k = edge_key e \<and> e \<in> UNIV"
    by (rule uniq_entries) auto
  then have "\<forall>e \<in> set ?U. array_index (fst e) = None"
    by (auto simp: edge_key_no_index)
  then have "own_entries ?U = ?U" by (rule own_entries_no_index)
  then show ?thesis by (simp add: edges_def edges_fold all_face_edges_def)
qed

text \<open>
  Claim C10. For every polyhedron whose faces hold vertex ids, the pairs returned by
  \<open>edges()\<close> have pairwise different (min, max) forms, and these forms are exactly the
  (min, max) forms of the directed edges of all faces: every undirected edge occurs once,
  however many faces run along it. Every returned pair is a directed edge of some face.
\<close>

theorem edges_once:
  assumes "\<forall>f \<in> set (faces p). None \<notin> set f"
  shows "distinct (map min_max (edges p)) \<and>
         min_max ` set (edges p) = min_max ` (\<Union>f \<in> set (faces p). set (faceToEdges f)) \<and>
         set (edges p) \<subseteq> (\<Union>f \<in> set (faces p). set (faceToEdges f))"
proof -
  let ?E = "\<Union>f \<in> set (faces p). set (faceToEdges f)"
  let ?U = "fold (\<lambda>e u. obj_set u (edge_key e) e) (all_face_edges p) []"
  have E: "set (all_face_edges p) = ?E" by (simp add: all_face_edges_def)
  have def: "fst e \<noteq> None \<and> snd e \<noteq> None" if "e \<in> ?E" for e
  proof -
    from that obtain f where f: "f \<in> set (faces p)" "e \<in> set (faceToEdges f)" by blast
    then have "fst e \<in> set f \<and> snd e \<in> set f" using faceToEdges_mem [of "fst e" "snd e" f] by simp
    with assms f(1) show ?thesis by metis
  qed
  have ent: "\<forall>(k, e) \<in> set ?U. k = edge_key e \<and> e \<in> ?E"
    by (rule uniq_entries) (auto simp: E)
  then have keys: "map fst ?U = map edge_key (edges p)"
    by (auto simp: edges_eq)
  have sub: "set (edges p) \<subseteq> ?E" using ent by (auto simp: edges_eq)
  have "distinct (map fst ?U)" by (rule uniq_distinct) simp
  then have d: "distinct (map edge_key (edges p))" by (simp add: keys)
  then have "distinct (edges p)" "inj_on edge_key (set (edges p))" by (simp_all add: distinct_map)
  then have 1: "distinct (map min_max (edges p))"
    unfolding distinct_map inj_on_def using edge_key_min_max by blast
  have "fst ` set ?U = edge_key ` ?E" using uniq_keys [of "all_face_edges p" "[]"] by (simp add: E)
  then have k: "edge_key ` set (edges p) = edge_key ` ?E"
    using keys by (metis set_map)
  have 2: "min_max ` set (edges p) = min_max ` ?E"
  proof
    show "min_max ` set (edges p) \<subseteq> min_max ` ?E" using sub by blast
    show "min_max ` ?E \<subseteq> min_max ` set (edges p)"
    proof
      fix x assume "x \<in> min_max ` ?E"
      then obtain e where e: "e \<in> ?E" "x = min_max e" by blast
      then have "edge_key e \<in> edge_key ` set (edges p)" using k by blast
      then obtain e' where e': "e' \<in> set (edges p)" "edge_key e = edge_key e'" by blast
      then have "e' \<in> ?E" using sub by blast
      then have "min_max e = min_max e'"
        using edge_key_inj [of e e'] def [of e] def [of e'] e e' by blast
      with e e' show "x \<in> min_max ` set (edges p)" by blast
    qed
  qed
  from 1 2 sub show ?thesis by blast
qed

text \<open>On the cube, 24 directed edges of faces give 12 edges.\<close>

theorem edges_once_witness:
  "distinct (map min_max (edges cube)) \<and> length (edges cube) = 12 \<and>
   length (concat (map faceToEdges (faces cube))) = 24"
proof -
  have "\<forall>f \<in> set (faces cube). None \<notin> set f"
    by (simp add: cube_parts cube_faces_def)
  from edges_once [OF this] have "distinct (map min_max (edges cube))" by blast
  moreover have "length (concat (map faceToEdges (faces cube))) = 24"
    unfolding cube_parts by code_simp
  ultimately show ?thesis using edges_cube by simp
qed

end
